theory Spec2Isabelle
  imports Complex_Main "HOL-Library.AList"
begin

section \<open>Strings\<close>

text \<open>
  A Python \<open>str\<close> is modelled as a \<^typ>\<open>string\<close>; a \<^typ>\<open>char\<close> is read as the code
  point of the same number, so the texts of this development are the Python strings over
  U+0000 .. U+00FF (every character the patterns of \<open>app.py\<close> name lies in that range).
  The character classes below are Python's, cut down to that range.
\<close>

definition nl :: char where
  "nl = CHR 0x0A"

definition isspace :: "char \<Rightarrow> bool" where
  \<comment> \<open>\<open>str.isspace\<close>, the set \<open>str.strip\<close> removes and \<open>\s\<close> matches\<close>
  "isspace c = (c \<in> set [CHR 0x09, CHR 0x0A, CHR 0x0B, CHR 0x0C, CHR 0x0D, CHR 0x1C,
     CHR 0x1D, CHR 0x1E, CHR 0x1F, CHR 0x20, CHR 0x85, CHR 0xA0])"

definition isdigit :: "char \<Rightarrow> bool" where
  \<comment> \<open>the decimal digits, what \<open>\d\<close> matches\<close>
  "isdigit c = (c \<in> set ''0123456789'')"

definition is_linebreak :: "char \<Rightarrow> bool" where
  \<comment> \<open>the line boundaries of \<open>str.splitlines\<close>\<close>
  "is_linebreak c = (c \<in> set [CHR 0x0A, CHR 0x0D, CHR 0x0B, CHR 0x0C, CHR 0x1C,
     CHR 0x1D, CHR 0x1E, CHR 0x85])"

definition lower :: "char \<Rightarrow> char" where
  \<comment> \<open>\<open>str.lower\<close> on one character\<close>
  "lower c = (let n = (of_char c :: nat) in
     if (65 \<le> n \<and> n \<le> 90) \<or> (192 \<le> n \<and> n \<le> 222 \<and> n \<noteq> 215)
     then char_of (n + 32) else c)"

definition lstrip :: "string \<Rightarrow> string" where
  "lstrip s = dropWhile isspace s"

definition rstrip :: "string \<Rightarrow> string" where
  "rstrip s = rev (dropWhile isspace (rev s))"

definition strip :: "string \<Rightarrow> string" where
  "strip s = lstrip (rstrip s)"

definition slice :: "string \<Rightarrow> nat \<Rightarrow> nat \<Rightarrow> string" where
  \<comment> \<open>\<open>s[a:b]\<close> for indices that are not negative\<close>
  "slice s a b = take (b - a) (drop a s)"

fun splitlines_from :: "string \<Rightarrow> string \<Rightarrow> string list" where
  "splitlines_from cur [] = (if cur = [] then [] else [rev cur])"
| "splitlines_from cur (c # cs) =
     (if c = CHR 0x0D \<and> (case cs of [] \<Rightarrow> False | d # ds \<Rightarrow> d = CHR 0x0A)
      then rev cur # splitlines_from [] (tl cs)
      else if is_linebreak c then rev cur # splitlines_from [] cs
      else splitlines_from (c # cur) cs)"

definition splitlines :: "string \<Rightarrow> string list" where
  "splitlines s = splitlines_from [] s"

section \<open>Regular expressions\<close>

text \<open>
  The patterns of \<open>app.py\<close> are matched by Python's \<open>re\<close>, a backtracking matcher:
  alternatives are tried from the left, a greedy repetition takes as many characters as it
  can and gives them back one at a time, a lazy one takes as few as it can. The matcher
  below works the same way, by continuations. Every repetition in the patterns of
  \<open>app.py\<close> is over a single character, so \<open>Rep\<close> repeats an atom.
\<close>

datatype flag = IGNORECASE | DOTALL

datatype citem = CChar char | CRange char char | CDigit | CSpace

datatype atom = Chr char | Dot | Digit | Space | InSet "citem list" | NotIn "citem list"

datatype regex =
    Atom atom
  | Eps
  | Bol
  | Eol
  | Seq regex regex
  | Alt regex regex
  | Rep atom nat "nat option" bool
  | Grp nat regex

type_synonym caps = "nat \<Rightarrow> (nat \<times> nat) option"

fun item_match :: "bool \<Rightarrow> citem \<Rightarrow> char \<Rightarrow> bool" where
  "item_match ic (CChar p) c = (if ic then lower c = lower p else c = p)"
| "item_match ic (CRange a b) c =
     (if ic then list_ex (\<lambda>n. lower (char_of n) = lower c) [of_char a ..< Suc (of_char b)]
      else (of_char a :: nat) \<le> of_char c \<and> (of_char c :: nat) \<le> of_char b)"
| "item_match ic CDigit c = isdigit (if ic then lower c else c)"
| "item_match ic CSpace c = isspace (if ic then lower c else c)"

fun amatch :: "flag list \<Rightarrow> atom \<Rightarrow> char \<Rightarrow> bool" where
  "amatch fl (Chr p) c = (if IGNORECASE \<in> set fl then lower c = lower p else c = p)"
| "amatch fl Dot c = (DOTALL \<in> set fl \<or> c \<noteq> nl)"
| "amatch fl Digit c = isdigit c"
| "amatch fl Space c = isspace c"
| "amatch fl (InSet its) c = list_ex (\<lambda>it. item_match (IGNORECASE \<in> set fl) it c) its"
| "amatch fl (NotIn its) c = (\<not> list_ex (\<lambda>it. item_match (IGNORECASE \<in> set fl) it c) its)"

definition below :: "nat \<Rightarrow> nat option \<Rightarrow> bool" where
  "below n hi = (case hi of None \<Rightarrow> True | Some h \<Rightarrow> n < h)"

text \<open>
  \<open>rep fl a lo hi greedy n i s c k\<close>: \<open>n\<close> characters have been taken so far; \<open>i\<close> is the
  position in the text, \<open>s\<close> the text from there, \<open>c\<close> the groups, \<open>k\<close> the rest of the
  match.
\<close>

fun rep :: "flag list \<Rightarrow> atom \<Rightarrow> nat \<Rightarrow> nat option \<Rightarrow> bool \<Rightarrow> nat \<Rightarrow> nat \<Rightarrow> string \<Rightarrow> caps \<Rightarrow>
    (nat \<Rightarrow> string \<Rightarrow> caps \<Rightarrow> 'a option) \<Rightarrow> 'a option" where
  "rep fl a lo hi g n i [] c k = (if lo \<le> n then k i [] c else None)"
| "rep fl a lo hi g n i (x # xs) c k =
     (if g then
        (case (if below n hi \<and> amatch fl a x then rep fl a lo hi g (Suc n) (Suc i) xs c k
               else None) of
           Some r \<Rightarrow> Some r
         | None \<Rightarrow> (if lo \<le> n then k i (x # xs) c else None))
      else
        (case (if lo \<le> n then k i (x # xs) c else None) of
           Some r \<Rightarrow> Some r
         | None \<Rightarrow> (if below n hi \<and> amatch fl a x
                     then rep fl a lo hi g (Suc n) (Suc i) xs c k else None)))"

fun rmatch :: "flag list \<Rightarrow> regex \<Rightarrow> nat \<Rightarrow> string \<Rightarrow> caps \<Rightarrow>
    (nat \<Rightarrow> string \<Rightarrow> caps \<Rightarrow> 'a option) \<Rightarrow> 'a option" where
  "rmatch fl (Atom a) i s c k =
     (case s of [] \<Rightarrow> None | x # xs \<Rightarrow> if amatch fl a x then k (Suc i) xs c else None)"
| "rmatch fl Eps i s c k = k i s c"
| "rmatch fl Bol i s c k = (if i = 0 then k i s c else None)"
| "rmatch fl Eol i s c k = (if s = [] \<or> s = [nl] then k i s c else None)"
| "rmatch fl (Seq r1 r2) i s c k = rmatch fl r1 i s c (\<lambda>j t d. rmatch fl r2 j t d k)"
| "rmatch fl (Alt r1 r2) i s c k =
     (case rmatch fl r1 i s c k of Some r \<Rightarrow> Some r | None \<Rightarrow> rmatch fl r2 i s c k)"
| "rmatch fl (Rep a lo hi g) i s c k = rep fl a lo hi g 0 i s c k"
| "rmatch fl (Grp n r) i s c k = rmatch fl r i s c (\<lambda>j t d. k j t (d(n \<mapsto> (i, j))))"

text \<open>
  A match object: where the match starts and ends, and the groups. \<open>must_advance\<close> is the
  rule \<open>finditer\<close> applies after an empty match: the next match at the same position may
  not be empty.
\<close>

record rmatch_obj =
  m_start :: nat
  m_end :: nat
  m_caps :: caps

definition match_at :: "flag list \<Rightarrow> regex \<Rightarrow> bool \<Rightarrow> nat \<Rightarrow> string \<Rightarrow> rmatch_obj option" where
  "match_at fl r must_advance i s =
     rmatch fl r i s Map.empty
       (\<lambda>j t d. if must_advance \<and> j = i then None
                else Some \<lparr>m_start = i, m_end = j, m_caps = d\<rparr>)"

fun search_from :: "flag list \<Rightarrow> regex \<Rightarrow> bool \<Rightarrow> nat \<Rightarrow> string \<Rightarrow> rmatch_obj option" where
  "search_from fl r adv i [] = match_at fl r adv i []"
| "search_from fl r adv i (x # xs) =
     (case match_at fl r adv i (x # xs) of
        Some m \<Rightarrow> Some m
      | None \<Rightarrow> search_from fl r False (Suc i) xs)"

definition re_search :: "flag list \<Rightarrow> regex \<Rightarrow> string \<Rightarrow> rmatch_obj option" where
  "re_search fl r text = search_from fl r False 0 text"

definition re_match :: "flag list \<Rightarrow> regex \<Rightarrow> string \<Rightarrow> rmatch_obj option" where
  "re_match fl r text = match_at fl r False 0 text"

definition group :: "string \<Rightarrow> rmatch_obj \<Rightarrow> nat \<Rightarrow> string option" where
  \<comment> \<open>\<open>m.group(n)\<close>: \<open>None\<close> for a group that took no part in the match\<close>
  "group text m n = (case m_caps m n of None \<Rightarrow> None | Some (a, b) \<Rightarrow> Some (slice text a b))"

definition start_of :: "rmatch_obj \<Rightarrow> nat \<Rightarrow> nat option" where
  \<comment> \<open>\<open>m.start(n)\<close>\<close>
  "start_of m n = (case m_caps m n of None \<Rightarrow> None | Some (a, b) \<Rightarrow> Some a)"

fun lit :: "string \<Rightarrow> regex" where
  "lit [] = Eps"
| "lit (c # cs) = Seq (Atom (Chr c)) (lit cs)"

fun seqs :: "regex list \<Rightarrow> regex" where
  "seqs [] = Eps"
| "seqs (r # rs) = Seq r (seqs rs)"


section \<open>Values and errors\<close>

text \<open>
  The exceptions the functions of \<open>app.py\<close> can meet, as values. A Python \<open>float\<close> is
  kept as the rational number its literal denotes: \<open>Finite q\<close> stands for the binary64
  value nearest to \<open>q\<close> (the rounding itself is not modelled), and a literal too large
  for binary64 gives an infinity, as \<open>float()\<close> does.
\<close>

datatype pyerr = ValueError | AttributeError | TypeError

datatype pyfloat = Finite rat | PosInf | NegInf | NaN

datatype pyval = Str string | Num pyfloat | PyNone

type_synonym dict = "(string \<times> pyval) list"

definition ebind :: "pyerr + 'a \<Rightarrow> ('a \<Rightarrow> pyerr + 'b) \<Rightarrow> pyerr + 'b" where
  "ebind x f = (case x of Inl e \<Rightarrow> Inl e | Inr v \<Rightarrow> f v)"

section \<open>\<open>float()\<close> on a string\<close>

definition float_space :: "char \<Rightarrow> bool" where
  \<comment> \<open>what \<open>float()\<close> strips: the C whitespace, and the whitespace beyond ASCII\<close>
  "float_space c = (c \<in> set [CHR 0x09, CHR 0x0A, CHR 0x0B, CHR 0x0C, CHR 0x0D, CHR 0x20,
     CHR 0x85, CHR 0xA0])"

definition sign_split :: "string \<Rightarrow> bool \<times> string" where
  "sign_split s = (case s of [] \<Rightarrow> (False, [])
     | c # cs \<Rightarrow> if c = CHR ''-'' then (True, cs) else if c = CHR ''+'' then (False, cs)
                else (False, s))"

fun digitpart_tail :: "string \<Rightarrow> string \<times> string" where
  "digitpart_tail [] = ([], [])"
| "digitpart_tail [c] = (if isdigit c then ([c], []) else ([], [c]))"
| "digitpart_tail (c # d # cs) =
     (if isdigit c then (case digitpart_tail (d # cs) of (ds, r) \<Rightarrow> (c # ds, r))
      else if c = CHR ''_'' \<and> isdigit d then (case digitpart_tail cs of (ds, r) \<Rightarrow> (d # ds, r))
      else ([], c # d # cs))"

definition digitpart :: "string \<Rightarrow> (string \<times> string) option" where
  \<comment> \<open>\<open>digit (["_"] digit)*\<close>: the digits and what follows them\<close>
  "digitpart s = (case s of [] \<Rightarrow> None
     | c # cs \<Rightarrow> if isdigit c then (case digitpart_tail cs of (ds, r) \<Rightarrow> Some (c # ds, r))
                else None)"

definition parse_number :: "string \<Rightarrow> (string \<times> string \<times> string) option" where
  \<comment> \<open>\<open>[digitpart] "." digitpart | digitpart ["."]\<close>\<close>
  "parse_number s =
     (case digitpart s of
        Some (ip, r) \<Rightarrow>
          (case r of
             [] \<Rightarrow> Some (ip, [], [])
           | c # r' \<Rightarrow>
               if c = CHR ''.'' then
                 (case digitpart r' of Some (fp, r'') \<Rightarrow> Some (ip, fp, r'')
                  | None \<Rightarrow> Some (ip, [], r'))
               else Some (ip, [], r))
      | None \<Rightarrow>
          (case s of
             [] \<Rightarrow> None
           | c # r' \<Rightarrow>
               if c = CHR ''.'' then
                 (case digitpart r' of Some (fp, r'') \<Rightarrow> Some ([], fp, r'') | None \<Rightarrow> None)
               else None))"

definition digit_val :: "char \<Rightarrow> nat" where
  "digit_val c = of_char c - 48"

definition digits_val :: "string \<Rightarrow> nat" where
  "digits_val ds = foldl (\<lambda>n c. 10 * n + digit_val c) 0 ds"

definition parse_exponent :: "string \<Rightarrow> int option" where
  \<comment> \<open>\<open>[("e" | "E") ["+" | "-"] digitpart]\<close>, up to the end of the string\<close>
  "parse_exponent s =
     (case s of
        [] \<Rightarrow> Some 0
      | c # cs \<Rightarrow>
          if c = CHR ''e'' \<or> c = CHR ''E'' then
            (case sign_split cs of (neg, r) \<Rightarrow>
               (case digitpart r of
                  Some (ds, r') \<Rightarrow>
                    if r' = [] then Some (if neg then - int (digits_val ds) else int (digits_val ds))
                    else None
                | None \<Rightarrow> None))
          else None)"

definition float_of_decimal :: "bool \<Rightarrow> nat \<Rightarrow> int \<Rightarrow> pyfloat" where
  \<comment> \<open>the float of \<open>n * 10 ^ e\<close>, negated when \<open>neg\<close>\<close>
  "float_of_decimal neg n e =
     (let q = (if 0 \<le> e then of_nat n * 10 ^ nat e else of_nat n / 10 ^ nat (- e) :: rat)
      in if 2 ^ 1024 - 2 ^ 970 \<le> q then (if neg then NegInf else PosInf)
         else Finite (if neg then - q else q))"

definition py_float :: "string \<Rightarrow> pyerr + pyfloat" where
  "py_float s =
     (case sign_split (rev (dropWhile float_space (rev (dropWhile float_space s)))) of
        (neg, r) \<Rightarrow>
          if map lower r = ''inf'' \<or> map lower r = ''infinity''
          then Inr (if neg then NegInf else PosInf)
          else if map lower r = ''nan'' then Inr NaN
          else
            (case parse_number r of
               None \<Rightarrow> Inl ValueError
             | Some (ip, fp, r') \<Rightarrow>
                 (case parse_exponent r' of
                    None \<Rightarrow> Inl ValueError
                  | Some e \<Rightarrow> Inr (float_of_decimal neg (digits_val (ip @ fp))
                                     (e - int (length fp))))))"

section \<open>The functions of \<open>app.py\<close>\<close>

definition COLUMNS :: "string list" where
  "COLUMNS = [''rota'', ''data_emissao'', ''data_previsao'', ''motorista'', ''veiculo'',
     ''carga'', ''numero_nota'', ''codigo_cliente'', ''nome_cliente'', ''pedido'', ''cidade'',
     ''peso_pedido'', ''endereco'', ''total_nota'', ''forma_recebimento'',
     ''valor_recebimento'']"

definition replace_char :: "char \<Rightarrow> string \<Rightarrow> string \<Rightarrow> string" where
  \<comment> \<open>\<open>s.replace(c, new)\<close> for a single character \<open>c\<close>\<close>
  "replace_char c new s = concat (map (\<lambda>x. if x = c then new else [x]) s)"

definition parse_br_number :: "string option \<Rightarrow> pyerr + pyfloat option" where
  "parse_br_number v =
     (case v of
        None \<Rightarrow> Inr None
      | Some s \<Rightarrow>
          (let text = strip s in
           if text = [] then Inr None
           else
             (case py_float (replace_char CHR '','' ''.'' (replace_char CHR ''.'' [] text)) of
                Inr f \<Rightarrow> Inr (Some f)
              | Inl ValueError \<Rightarrow> Inr None
              | Inl e \<Rightarrow> Inl e)))"

definition find :: "regex \<Rightarrow> string \<Rightarrow> pyerr + string" where
  \<comment> \<open>the local \<open>find\<close> of \<open>extract_header_fields\<close> and of \<open>parse_block\<close>;
      \<open>.strip()\<close> on a group that is \<open>None\<close> raises\<close>
  "find pattern text =
     (case re_search [IGNORECASE] pattern text of
        None \<Rightarrow> Inr []
      | Some m \<Rightarrow>
          (case group text m 1 of None \<Rightarrow> Inl AttributeError | Some g \<Rightarrow> Inr (strip g)))"

definition rota_pattern :: regex where
  \<comment> \<open>\<open>^\d{2,4}\s+[A-Za-z\<dots>-\<dots>0-9 .,\-()]+$\<close>, the range in the middle from U+00C0 to U+00FF\<close>
  "rota_pattern = seqs [Bol, Rep Digit 2 (Some 4) True, Rep Space 1 None True,
     Rep (InSet [CRange CHR ''A'' CHR ''Z'', CRange CHR ''a'' CHR ''z'',
                 CRange (CHR 0xC0) (CHR 0xFF), CRange CHR ''0'' CHR ''9'', CChar CHR '' '',
                 CChar CHR ''.'', CChar CHR '','', CChar CHR ''-'', CChar CHR ''('',
                 CChar CHR '')'']) 1 None True,
     Eol]"

definition date_token :: regex where
  \<comment> \<open>\<open>([\d/]{8,10})\<close>\<close>
  "date_token = Grp 1 (Rep (InSet [CDigit, CChar CHR ''/'']) 8 (Some 10) True)"

definition rest_of_line :: regex where
  \<comment> \<open>\<open>([^\n]+)\<close>\<close>
  "rest_of_line = Grp 1 (Rep (NotIn [CChar nl]) 1 None True)"

definition number_token :: "nat \<Rightarrow> regex" where
  \<comment> \<open>\<open>([0-9\.,]+)\<close> as group \<open>n\<close>\<close>
  "number_token n =
     Grp n (Rep (InSet [CRange CHR ''0'' CHR ''9'', CChar CHR ''.'', CChar CHR '','']) 1 None True)"

definition emissao_pattern :: regex where
  \<comment> \<open>\<open>Emiss[a\<dots>]o:\s*([\d/]{8,10})\<close>, the second letter of the class U+00E3\<close>
  "emissao_pattern = seqs [lit ''Emiss'', Atom (InSet [CChar CHR ''a'', CChar (CHR 0xE3)]),
     lit ''o:'', Rep Space 0 None True, date_token]"

definition previsao_pattern :: regex where
  \<comment> \<open>\<open>Previs[a\<dots>]o:\s*([\d/]{8,10})\<close>\<close>
  "previsao_pattern = seqs [lit ''Previs'', Atom (InSet [CChar CHR ''a'', CChar (CHR 0xE3)]),
     lit ''o:'', Rep Space 0 None True, date_token]"

definition motorista_pattern :: regex where
  \<comment> \<open>\<open>Motorista:\s*([^\n]+)\<close>\<close>
  "motorista_pattern = seqs [lit ''Motorista:'', Rep Space 0 None True, rest_of_line]"

definition veiculo_pattern :: regex where
  \<comment> \<open>\<open>Ve[i\<dots>]culo:\s*([^\n]+)\<close>, the second letter of the class U+00ED\<close>
  "veiculo_pattern = seqs [lit ''Ve'', Atom (InSet [CChar CHR ''i'', CChar (CHR 0xED)]),
     lit ''culo:'', Rep Space 0 None True, rest_of_line]"

definition carga_pattern :: regex where
  \<comment> \<open>\<open>Carga[:\s]+([0-9\.,]+)\<close>\<close>
  "carga_pattern = seqs [lit ''Carga'', Rep (InSet [CChar CHR '':'', CSpace]) 1 None True,
     number_token 1]"

fun first_rota :: "string list \<Rightarrow> string" where
  \<comment> \<open>the loop over the lines, left at the first line that matches\<close>
  "first_rota [] = []"
| "first_rota (line # rest) =
     (if re_match [] rota_pattern line \<noteq> None then line else first_rota rest)"

definition extract_header_fields :: "string \<Rightarrow> pyerr + dict" where
  "extract_header_fields text =
     (let lines = map strip (filter (\<lambda>line. strip line \<noteq> []) (splitlines text));
          rota = first_rota lines
      in ebind (find emissao_pattern text) (\<lambda>data_emissao.
         ebind (find previsao_pattern text) (\<lambda>data_previsao.
         ebind (find motorista_pattern text) (\<lambda>motorista.
         ebind (find veiculo_pattern text) (\<lambda>veiculo.
         ebind (find carga_pattern text) (\<lambda>carga.
         Inr [(''rota'', Str rota), (''data_emissao'', Str data_emissao),
              (''data_previsao'', Str data_previsao), (''motorista'', Str motorista),
              (''veiculo'', Str veiculo), (''carga'', Str carga)]))))))"

section \<open>The number normaliser\<close>

lemmas number_defs = parse_br_number_def strip_def lstrip_def rstrip_def isspace_def
  replace_char_def py_float_def float_space_def sign_split_def lower_def parse_number_def
  digitpart_def isdigit_def parse_exponent_def float_of_decimal_def digits_val_def digit_val_def

lemma strip_empty_iff: "strip s = [] \<longleftrightarrow> list_all isspace s"
proof
  assume e: "strip s = []"
  have all: "\<forall>x \<in> set (dropWhile isspace (rev s)). isspace x"
    using e by (simp add: strip_def lstrip_def rstrip_def dropWhile_eq_Nil_conv)
  have "dropWhile isspace (rev s) = []"
  proof (rule ccontr)
    assume ne: "dropWhile isspace (rev s) \<noteq> []"
    then have "\<not> isspace (hd (dropWhile isspace (rev s)))" by (rule hd_dropWhile)
    moreover have "hd (dropWhile isspace (rev s)) \<in> set (dropWhile isspace (rev s))"
      using ne by simp
    ultimately show False using all by blast
  qed
  then show "list_all isspace s"
    by (simp add: dropWhile_eq_Nil_conv list_all_iff)
next
  assume "list_all isspace s"
  then have "dropWhile isspace (rev s) = []"
    by (simp add: dropWhile_eq_Nil_conv list_all_iff)
  then show "strip s = []"
    by (simp add: strip_def lstrip_def rstrip_def del: dropWhile_eq_Nil_conv)
qed

lemma py_float_error: "py_float s = Inl e \<Longrightarrow> e = ValueError"
  by (auto simp: py_float_def split: prod.splits if_splits option.splits)

lemma parse_br_number_Some:
  "parse_br_number (Some s) =
     Inr (if list_all isspace s then None
          else (case py_float (replace_char CHR '','' ''.'' (replace_char CHR ''.'' [] (strip s))) of
                  Inr f \<Rightarrow> Some f | Inl e \<Rightarrow> None))"
proof (cases "py_float (replace_char CHR '','' ''.'' (replace_char CHR ''.'' [] (strip s)))")
  case (Inl e)
  then have "e = ValueError" by (rule py_float_error)
  with Inl show ?thesis
    by (simp add: parse_br_number_def Let_def strip_empty_iff)
next
  case (Inr f)
  then show ?thesis
    by (simp add: parse_br_number_def Let_def strip_empty_iff)
qed

lemma parse_br_number_total: "\<exists>r. parse_br_number v = Inr r"
  by (cases v) (simp_all add: parse_br_number_Some, simp add: parse_br_number_def)

text \<open>
  Claim C4. \<open>parse_br_number\<close> maps \<open>None\<close> and a string that is empty or all whitespace
  to \<open>None\<close>. For every other string it strips the whitespace around it, removes every
  \<open>.\<close>, replaces every \<open>,\<close> by \<open>.\<close> and hands the result to \<open>float()\<close>; where that
  raises, the result is \<open>None\<close>. The result is always a value (\<open>Inr\<close>), never an
  exception. In particular \<open>5.458,96\<close> gives 5458.96, \<open>1.234.567,89\<close> gives 1234567.89,
  and the empty string, \<open>None\<close> and \<open>abc\<close> give \<open>None\<close>.
\<close>

theorem parse_br_number_normalizes:
  "parse_br_number None = Inr None \<and>
   parse_br_number (Some s) =
     Inr (if list_all isspace s then None
          else (case py_float (replace_char CHR '','' ''.'' (replace_char CHR ''.'' [] (strip s))) of
                  Inr f \<Rightarrow> Some f | Inl e \<Rightarrow> None)) \<and>
   parse_br_number (Some ''5.458,96'') = Inr (Some (Finite 5458.96)) \<and>
   parse_br_number (Some ''1.234.567,89'') = Inr (Some (Finite 1234567.89)) \<and>
   parse_br_number (Some '''') = Inr None \<and>
   parse_br_number (Some ''abc'') = Inr None"
proof -
  have a: "parse_br_number None = Inr None"
    by (simp add: parse_br_number_def)
  have b: "parse_br_number (Some ''5.458,96'') = Inr (Some (Finite 5458.96))"
    by (simp add: number_defs)
  have c: "parse_br_number (Some ''1.234.567,89'') = Inr (Some (Finite 1234567.89))"
    by (simp add: number_defs)
  have d: "parse_br_number (Some '''') = Inr None"
    by (simp add: number_defs)
  have e: "parse_br_number (Some ''abc'') = Inr None"
    by (simp add: number_defs)
  show ?thesis
    using a b c d e parse_br_number_Some [of s] by blast
qed

text \<open>
  Claim C10. After the separators are replaced, \<open>parse_br_number\<close> accepts whatever
  \<open>float()\<close> accepts, also outside the Brazilian convention of digits, dots and commas:
  \<open>1e3\<close> gives 1000.0, \<open>-2\<close> gives -2.0, and \<open>inf\<close> gives a float that is infinite.
\<close>

theorem parse_br_number_accepts_float_literals:
  "parse_br_number (Some ''1e3'') = Inr (Some (Finite 1000.0)) \<and>
   parse_br_number (Some ''-2'') = Inr (Some (Finite (- 2.0))) \<and>
   parse_br_number (Some ''inf'') = Inr (Some PosInf)"
proof -
  have a: "parse_br_number (Some ''1e3'') = Inr (Some (Finite 1000.0))"
    by (simp add: number_defs)
  have b: "parse_br_number (Some ''-2'') = Inr (Some (Finite (- 2.0)))"
    by (simp add: number_defs)
  have c: "parse_br_number (Some ''inf'') = Inr (Some PosInf)"
    by (simp add: number_defs)
  show ?thesis using a b c by blast
qed

end
